theory Spec2Isabelle
  imports Main "HOL-Library.AList"
begin

section \<open>Python values shared by both programs\<close>

text \<open>
  The repository has two programs: the batch script
  \<^verbatim>\<open>scripts/handle_changed_files.py\<close> and the Flask service
  \<^verbatim>\<open>source/app.py\<close>. A Python \<^verbatim>\<open>str\<close> is a \<^typ>\<open>string\<close> holding its UTF-8
  encoding, and \<^verbatim>\<open>bytes\<close> are a \<^typ>\<open>string\<close> too (a list of 8-bit
  characters); the git output and the paths are ASCII. Exceptions are values:
  every constructor below stands for an instance of a subclass of Python's
  \<^verbatim>\<open>Exception\<close>, which is what the two \<^verbatim>\<open>except Exception as e\<close> clauses of
  the source catch. \<open>UnicodeDecodeError\<close> holds the first byte of the bad
  sequence, its start and end positions and the reason; \<open>BackendError\<close> stands
  for whatever the agent library raises.
\<close>

datatype exn =
    FileNotFoundError string
  | IsADirectoryError string
  | UnicodeDecodeError char nat nat string
  | AttributeError string
  | UnboundLocalError string
  | RuntimeError string
  | BackendError string

text \<open>Two hexadecimal digits, and the decimal digits of a number.\<close>

definition hex_digit :: "nat \<Rightarrow> char" where
  "hex_digit n = ''0123456789abcdef'' ! (n mod 16)"

definition hex2 :: "nat \<Rightarrow> string" where
  "hex2 n = [hex_digit (n div 16), hex_digit n]"

fun dec :: "nat \<Rightarrow> string" where
  "dec n = (if n < 10 then [hex_digit n] else dec (n div 10) @ [hex_digit (n mod 10)])"

declare dec.simps [simp del]

text \<open>
  \<^verbatim>\<open>repr\<close> of a \<^verbatim>\<open>str\<close> of ASCII characters: double quotes when the string
  holds an apostrophe and no double quote, and the escapes of the backslash, the
  quote and the control characters.
\<close>

definition repr_char :: "char \<Rightarrow> char \<Rightarrow> string" where
  "repr_char quote c =
     (if c = quote \<or> c = CHR 0x5C then [CHR 0x5C, c]
      else if c = CHR 0x09 then [CHR 0x5C, CHR ''t'']
      else if c = CHR 0x0A then [CHR 0x5C, CHR ''n'']
      else if c = CHR 0x0D then [CHR 0x5C, CHR ''r'']
      else if (of_char c :: nat) < 32 \<or> (of_char c :: nat) = 127
        then [CHR 0x5C, CHR ''x''] @ hex2 (of_char c)
      else [c])"

definition py_repr :: "string \<Rightarrow> string" where
  "py_repr s =
     (let quote = (if CHR 0x27 \<in> set s \<and> CHR 0x22 \<notin> set s then CHR 0x22 else CHR 0x27)
      in [quote] @ concat (map (repr_char quote) s) @ [quote])"

text \<open>\<^verbatim>\<open>str(e)\<close>, as the f-strings of both handlers print it.\<close>

fun str_exn :: "exn \<Rightarrow> string" where
  "str_exn (FileNotFoundError p) = ''[Errno 2] No such file or directory: '' @ py_repr p"
| "str_exn (IsADirectoryError p) = ''[Errno 21] Is a directory: '' @ py_repr p"
| "str_exn (UnicodeDecodeError b start stop reason) =
     (if stop = Suc start
      then [CHR 0x27] @ ''utf-8'' @ [CHR 0x27] @ '' codec can'' @ [CHR 0x27]
             @ ''t decode byte 0x'' @ hex2 (of_char b) @ '' in position '' @ dec start
             @ '': '' @ reason
      else [CHR 0x27] @ ''utf-8'' @ [CHR 0x27] @ '' codec can'' @ [CHR 0x27]
             @ ''t decode bytes in position '' @ dec start @ ''-'' @ dec (stop - 1)
             @ '': '' @ reason)"
| "str_exn (AttributeError m) = m"
| "str_exn (UnboundLocalError m) = m"
| "str_exn (RuntimeError m) = m"
| "str_exn (BackendError m) = m"

subsection \<open>The file system\<close>

text \<open>
  A path names a regular file with its bytes, or a directory, or nothing.
\<close>

datatype node = File string | Dir

type_synonym fs = "string \<rightharpoonup> node"

text \<open>\<^verbatim>\<open>open(path, 'rb')\<close> followed by \<^verbatim>\<open>read()\<close>: the bytes as they are.\<close>

definition open_read :: "fs \<Rightarrow> string \<Rightarrow> exn + string" where
  "open_read fs path =
     (case fs path of
        None \<Rightarrow> Inl (FileNotFoundError path)
      | Some Dir \<Rightarrow> Inl (IsADirectoryError path)
      | Some (File contents) \<Rightarrow> Inr contents)"

text \<open>
  The strict UTF-8 decoder, on the whole content at once as \<^verbatim>\<open>read()\<close> runs it:
  the first ill-formed sequence from position \<open>pos\<close> on, if there is one. Overlong
  forms, surrogates and code points above U+10FFFF are ill-formed.
\<close>

definition is_continuation :: "char \<Rightarrow> bool" where
  "is_continuation b = (128 \<le> (of_char b :: nat) \<and> (of_char b :: nat) < 192)"

fun utf8_error :: "nat \<Rightarrow> string \<Rightarrow> exn option" where
  "utf8_error pos [] = None"
| "utf8_error pos (b # rest) =
     (let ch = (of_char b :: nat) in
      if ch < 0x80 then utf8_error (pos + 1) rest
      else if ch < 0xC2 then Some (UnicodeDecodeError b pos (pos + 1) ''invalid start byte'')
      else if ch < 0xE0 then
        (case rest of
           [] \<Rightarrow> Some (UnicodeDecodeError b pos (pos + 1) ''unexpected end of data'')
         | b2 # rest2 \<Rightarrow>
             if \<not> is_continuation b2
             then Some (UnicodeDecodeError b pos (pos + 1) ''invalid continuation byte'')
             else utf8_error (pos + 2) rest2)
      else if ch < 0xF0 then
        (case rest of
           [] \<Rightarrow> Some (UnicodeDecodeError b pos (pos + 1) ''unexpected end of data'')
         | b2 # rest2 \<Rightarrow>
             if \<not> is_continuation b2 \<or>
                (if (of_char b2 :: nat) < 0xA0 then ch = 0xE0 else ch = 0xED)
             then Some (UnicodeDecodeError b pos (pos + 1) ''invalid continuation byte'')
             else
               (case rest2 of
                  [] \<Rightarrow> Some (UnicodeDecodeError b pos (pos + 2) ''unexpected end of data'')
                | b3 # rest3 \<Rightarrow>
                    if \<not> is_continuation b3
                    then Some (UnicodeDecodeError b pos (pos + 2) ''invalid continuation byte'')
                    else utf8_error (pos + 3) rest3))
      else if ch < 0xF5 then
        (case rest of
           [] \<Rightarrow> Some (UnicodeDecodeError b pos (pos + 1) ''unexpected end of data'')
         | b2 # rest2 \<Rightarrow>
             if \<not> is_continuation b2 \<or>
                (if (of_char b2 :: nat) < 0x90 then ch = 0xF0 else ch = 0xF4)
             then Some (UnicodeDecodeError b pos (pos + 1) ''invalid continuation byte'')
             else
               (case rest2 of
                  [] \<Rightarrow> Some (UnicodeDecodeError b pos (pos + 2) ''unexpected end of data'')
                | b3 # rest3 \<Rightarrow>
                    if \<not> is_continuation b3
                    then Some (UnicodeDecodeError b pos (pos + 2) ''invalid continuation byte'')
                    else
                      (case rest3 of
                         [] \<Rightarrow>
                           Some (UnicodeDecodeError b pos (pos + 3) ''unexpected end of data'')
                       | b4 # rest4 \<Rightarrow>
                           if \<not> is_continuation b4
                           then Some (UnicodeDecodeError b pos (pos + 3)
                                        ''invalid continuation byte'')
                           else utf8_error (pos + 4) rest4)))
      else Some (UnicodeDecodeError b pos (pos + 1) ''invalid start byte''))"

text \<open>
  Universal newlines, the default of text mode: \<^verbatim>\<open>\r\n\<close> and a lone \<^verbatim>\<open>\r\<close>
  are read as \<^verbatim>\<open>\n\<close>.
\<close>

fun translate_newlines :: "string \<Rightarrow> string" where
  "translate_newlines [] = []"
| "translate_newlines (c # cs) =
     (if c = CHR 0x0D then
        (case cs of
           [] \<Rightarrow> [CHR 0x0A]
         | d # ds \<Rightarrow>
             if d = CHR 0x0A then CHR 0x0A # translate_newlines ds
             else CHR 0x0A # translate_newlines cs)
      else c # translate_newlines cs)"

text \<open>
  \<^verbatim>\<open>open(path, 'r', encoding='utf-8')\<close> followed by \<^verbatim>\<open>read()\<close>: the text of
  the file, or \<^verbatim>\<open>UnicodeDecodeError\<close> when its bytes are not UTF-8.
\<close>

definition open_read_text :: "fs \<Rightarrow> string \<Rightarrow> exn + string" where
  "open_read_text fs path =
     (case fs path of
        None \<Rightarrow> Inl (FileNotFoundError path)
      | Some Dir \<Rightarrow> Inl (IsADirectoryError path)
      | Some (File bytes) \<Rightarrow>
          (case utf8_error 0 bytes of
             Some e \<Rightarrow> Inl e
           | None \<Rightarrow> Inr (translate_newlines bytes)))"

text \<open>
  \<^verbatim>\<open>open(path, 'w', encoding='utf-8')\<close> followed by \<^verbatim>\<open>write(text)\<close>: creates
  or truncates; on POSIX the text is stored as its UTF-8 encoding.
\<close>

definition open_write :: "fs \<Rightarrow> string \<Rightarrow> string \<Rightarrow> exn + fs" where
  "open_write fs path text =
     (case fs path of
        Some Dir \<Rightarrow> Inl (IsADirectoryError path)
      | _ \<Rightarrow> Inr (fs(path \<mapsto> File text)))"

definition os_path_exists :: "fs \<Rightarrow> string \<Rightarrow> bool" where
  "os_path_exists fs path = (fs path \<noteq> None)"

definition os_remove :: "fs \<Rightarrow> string \<Rightarrow> exn + fs" where
  "os_remove fs path =
     (case fs path of
        None \<Rightarrow> Inl (FileNotFoundError path)
      | Some Dir \<Rightarrow> Inl (IsADirectoryError path)
      | Some (File _) \<Rightarrow> Inr (fs(path := None)))"

subsection \<open>String and path functions of the standard library (POSIX)\<close>

definition startswith :: "string \<Rightarrow> string \<Rightarrow> bool" where
  "startswith s p = (take (length p) s = p)"

definition endswith :: "string \<Rightarrow> string \<Rightarrow> bool" where
  "endswith s p = (length p \<le> length s \<and> drop (length s - length p) s = p)"

text \<open>\<^verbatim>\<open>s.rfind(c)\<close>: the last index of \<open>c\<close>, or \<open>-1\<close>.\<close>

definition rfind :: "string \<Rightarrow> char \<Rightarrow> int" where
  "rfind s c =
     (if c \<in> set s then int (length s) - 1 - int (length (takeWhile (\<lambda>x. x \<noteq> c) (rev s)))
      else - 1)"

text \<open>\<^verbatim>\<open>posixpath.basename\<close>: \<^verbatim>\<open>i = p.rfind('/') + 1; return p[i:]\<close>.\<close>

definition os_path_basename :: "string \<Rightarrow> string" where
  "os_path_basename p = drop (nat (rfind p CHR ''/'' + 1)) p"

text \<open>
  \<^verbatim>\<open>posixpath.splitext\<close>: the extension starts at the last dot after the last
  slash, unless only dots precede it in the file name.
\<close>

definition os_path_splitext :: "string \<Rightarrow> string \<times> string" where
  "os_path_splitext p =
     (let sepIndex = rfind p CHR ''/'';
          dotIndex = rfind p CHR ''.''
      in if dotIndex > sepIndex \<and>
            list_ex (\<lambda>c. c \<noteq> CHR ''.'') (drop (nat (sepIndex + 1)) (take (nat dotIndex) p))
         then (take (nat dotIndex) p, drop (nat dotIndex) p)
         else (p, []))"

text \<open>\<^verbatim>\<open>posixpath.join(a, b)\<close> with one component.\<close>

definition os_path_join :: "string \<Rightarrow> string \<Rightarrow> string" where
  "os_path_join a b =
     (if startswith b ''/'' then b
      else if a = [] \<or> endswith a ''/'' then a @ b
      else a @ ''/'' @ b)"

text \<open>\<^verbatim>\<open>str.isspace\<close> on ASCII, \<^verbatim>\<open>str.strip()\<close> and \<^verbatim>\<open>str.split(sep)\<close>.\<close>

definition isspace :: "char \<Rightarrow> bool" where
  "isspace c = (c \<in> set [CHR 0x09, CHR 0x0A, CHR 0x0B, CHR 0x0C, CHR 0x0D,
                           CHR 0x1C, CHR 0x1D, CHR 0x1E, CHR 0x1F, CHR 0x20])"

definition strip :: "string \<Rightarrow> string" where
  "strip s = rev (dropWhile isspace (rev (dropWhile isspace s)))"

fun split :: "char \<Rightarrow> string \<Rightarrow> string list" where
  "split sep [] = [[]]"
| "split sep (c # cs) =
     (if c = sep then [] # split sep cs
      else (case split sep cs of
              w # ws \<Rightarrow> (c # w) # ws
            | [] \<Rightarrow> [[c]]))"

section \<open>The batch script: scripts/handle\_changed\_files.py\<close>

definition make_prompt :: "string \<Rightarrow> string" where
  "make_prompt file_contents =
     ''\<newline>        Solicit input from other agents regarding the following source code:\<newline>    \<newline>        [START SOURCE CODE]\<newline>        ''
     @ file_contents @
     ''\<newline>        [END SOURCE CODE]\<newline>\<newline>        Important: This source code must be provided to all other agents.\<newline>        ''"

text \<open>
  The state the loop works on: the file system, the lines printed so far, and
  the state of the team of agents (its history and its backend), which
  \<^verbatim>\<open>team.run\<close> reads and updates. \<^verbatim>\<open>team.run(prompt)\<close> is the agent library
  and a language model behind it: it is a parameter \<open>run\<close> of the model, which
  returns the content of the response (a \<^verbatim>\<open>str\<close>) or raises, and the next team
  state. It does not touch the files of the model.
\<close>

record 't state =
  files :: fs
  printed :: "string list"
  team :: 't

type_synonym 't runner = "'t \<Rightarrow> string \<Rightarrow> (exn + string) \<times> 't"

definition print :: "string \<Rightarrow> 't state \<Rightarrow> 't state" where
  "print s st = st\<lparr>printed := printed st @ [s]\<rparr>"

text \<open>The condition of line 99.\<close>

definition accepted :: "string \<Rightarrow> bool" where
  "accepted line =
     (startswith line ''source/'' \<and> (endswith line ''.py'' \<or> endswith line ''.js''))"

text \<open>Lines 110 to 112.\<close>

definition output_path_of :: "string \<Rightarrow> string" where
  "output_path_of line =
     (let filename = os_path_basename line;
          (name, ext) = os_path_splitext filename
      in os_path_join ''reports'' (name @ ''.md''))"

text \<open>
  The body of the \<^verbatim>\<open>try\<close> (lines 101 to 120). An exception leaves with the
  state reached when it was raised.
\<close>

definition try_body :: "'t runner \<Rightarrow> string \<Rightarrow> 't state \<Rightarrow> (exn \<times> 't state) + 't state" where
  "try_body run line st =
     (let st1 = print (''Processing '' @ line) st
      in case open_read_text (files st1) line of
           Inl e \<Rightarrow> Inl (e, st1)
         | Inr contents \<Rightarrow>
            (let output_path = output_path_of line;
                 prompt = make_prompt contents;
                 (response, t') = run (team st1) prompt;
                 st2 = st1\<lparr>team := t'\<rparr>
             in (case response of
                   Inl e \<Rightarrow> Inl (e, st2)
                 | Inr content \<Rightarrow>
                     (case open_write (files st2) output_path content of
                        Inl e \<Rightarrow> Inl (e, st2)
                      | Inr fs' \<Rightarrow> Inr (st2\<lparr>files := fs'\<rparr>)))))"

text \<open>One iteration (lines 99 to 123): the filter, the \<^verbatim>\<open>try\<close> and its handler.\<close>

definition loop_body :: "'t runner \<Rightarrow> string \<Rightarrow> 't state \<Rightarrow> (exn \<times> 't state) + 't state" where
  "loop_body run line st =
     (if accepted line then
        (case try_body run line st of
           Inr st' \<Rightarrow> Inr st'
         | Inl (e, st') \<Rightarrow>
             Inr (print (''Error processing '' @ line @ '': ('' @ str_exn e @ '')'') st'))
      else Inr st)"

text \<open>The \<^verbatim>\<open>for\<close> loop: an exception that leaves an iteration ends the loop.\<close>

fun main_loop :: "'t runner \<Rightarrow> string list \<Rightarrow> 't state \<Rightarrow> (exn \<times> 't state) + 't state" where
  "main_loop run [] st = Inr st"
| "main_loop run (line # lines) st =
     (case loop_body run line st of
        Inl x \<Rightarrow> Inl x
      | Inr st' \<Rightarrow> main_loop run lines st')"

text \<open>Line 98: the lines of the output of \<^verbatim>\<open>git diff --name-only\<close>.\<close>

definition changed_lines :: "string \<Rightarrow> string list" where
  "changed_lines stdout = split CHR ''\<newline>'' (strip stdout)"

definition script :: "'t runner \<Rightarrow> string \<Rightarrow> 't state \<Rightarrow> (exn \<times> 't state) + 't state" where
  "script run stdout st = main_loop run (changed_lines stdout) st"

text \<open>
  The exit status of the interpreter: 0 when the script runs to its end, 1 when
  an exception leaves it.
\<close>

definition exit_status :: "(exn \<times> 't state) + 't state \<Rightarrow> nat" where
  "exit_status r = (case r of Inl _ \<Rightarrow> 1 | Inr _ \<Rightarrow> 0)"

section \<open>The web service: source/app.py\<close>

subsection \<open>Responses and streamed bodies\<close>

text \<open>
  The objects \<^verbatim>\<open>generate\<close> can meet when it iterates: an event of a streamed
  run, which has an attribute \<^verbatim>\<open>content\<close>, or a \<^verbatim>\<open>str\<close>, which has none. Its
  argument is the iterator that \<^verbatim>\<open>team.run(..., stream=True)\<close> returns, or a
  \<^verbatim>\<open>str\<close>, whose iteration yields its characters as strings of length one.
\<close>

datatype pyobj = RunEvent string | PyStr string

datatype chunks = Iterator "pyobj list" | Text string

fun iter :: "chunks \<Rightarrow> pyobj list" where
  "iter (Iterator evs) = evs"
| "iter (Text s) = map (\<lambda>c. PyStr [c]) s"

text \<open>The attribute access \<^verbatim>\<open>chunk.content\<close>.\<close>

fun content_of :: "pyobj \<Rightarrow> exn + string" where
  "content_of (RunEvent c) = Inr c"
| "content_of (PyStr s) =
     Inl (AttributeError ([CHR 0x27] @ ''str'' @ [CHR 0x27] @ '' object has no attribute ''
            @ [CHR 0x27] @ ''content'' @ [CHR 0x27]))"

text \<open>
  \<^verbatim>\<open>generate\<close> is a generator: nothing runs until the server consumes the body.
  Its value here is what the consumer observes: the texts yielded, in order, and
  the exception that ends the stream, if one does.
\<close>

fun generate_from :: "pyobj list \<Rightarrow> string list \<times> exn option" where
  "generate_from [] = ([], None)"
| "generate_from (chunk # rest) =
     (case content_of chunk of
        Inl e \<Rightarrow> ([], Some e)
      | Inr c \<Rightarrow> (let (ys, r) = generate_from rest in (c # ys, r)))"

definition generate :: "chunks \<Rightarrow> string list \<times> exn option" where
  "generate cs = generate_from (iter cs)"

datatype body = Static string | Streamed "string list \<times> exn option"

text \<open>The status, the headers the handler sets, and the body.\<close>

record response =
  status :: nat
  headers :: "(string \<times> string) list"
  body :: body

text \<open>\<^verbatim>\<open>make_response(stream_with_context(g))\<close> and \<^verbatim>\<open>Response(src)\<close>.\<close>

definition make_response :: "string list \<times> exn option \<Rightarrow> response" where
  "make_response g = \<lparr>status = 200, headers = [], body = Streamed g\<rparr>"

definition Response :: "string \<Rightarrow> response" where
  "Response src = \<lparr>status = 200, headers = [], body = Static src\<rparr>"

text \<open>The assignment \<^verbatim>\<open>response.headers[k] = v\<close>.\<close>

definition set_header :: "string \<Rightarrow> string \<Rightarrow> response \<Rightarrow> response" where
  "set_header k v r = r\<lparr>headers := AList.update k v (headers r)\<rparr>"

subsection \<open>The handler of /team\<close>

text \<open>
  The request gives \<^verbatim>\<open>request.headers.get\<close> and \<^verbatim>\<open>request.args.get\<close>. The
  first is the first statement of the \<^verbatim>\<open>try\<close> block and, like every call in
  it, may raise. The team object has the field the handler assigns.
  \<^verbatim>\<open>create_team\<close> is in the module \<^verbatim>\<open>helpers\<close>, which the repository does not
  hold, and \<^verbatim>\<open>team.run\<close> is the agent library: both are parameters, and so is
  \<^verbatim>\<open>str(uuid.uuid4())\<close>, as the value of the \<open>n\<close>-th draw of the process.
\<close>

record request =
  headers_get :: "string \<Rightarrow> exn + string option"
  args_get :: "string \<Rightarrow> string option"

record team_obj =
  session_id :: "string option"

record services =
  uuid4 :: "nat \<Rightarrow> string"
  create_team :: "exn + team_obj"
  team_run :: "team_obj \<Rightarrow> string option \<Rightarrow> exn + pyobj list"

text \<open>
  The \<^verbatim>\<open>try\<close> block (lines 19 to 34). The number is the count of tokens drawn
  so far. An exception leaves with the local variable \<^verbatim>\<open>session_id\<close> as it
  is at that point: \<open>None\<close> when it is not bound yet (line 19 raised),
  \<open>Some token\<close> after line 23.
\<close>

definition ask_team_try ::
  "services \<Rightarrow> nat \<Rightarrow> request \<Rightarrow> ((exn \<times> string option) + response) \<times> nat" where
  "ask_team_try sv n req =
     (case headers_get req ''X-Session-ID'' of
        Inl e \<Rightarrow> (Inl (e, None), n)
      | Inr h \<Rightarrow>
         (let (token, n') =
                (case h of
                   None \<Rightarrow> (uuid4 sv n, Suc n)
                 | Some v \<Rightarrow> if v = [] then (uuid4 sv n, Suc n) else (v, n))
          in (case create_team sv of
                Inl e \<Rightarrow> (Inl (e, Some token), n')
              | Inr team0 \<Rightarrow>
                 (let team1 = team0\<lparr>session_id := Some token\<rparr>;
                      user_input = args_get req ''input''
                  in (case team_run sv team1 user_input of
                        Inl e \<Rightarrow> (Inl (e, Some token), n')
                      | Inr output \<Rightarrow>
                          (Inr (set_header ''X-Session-ID'' token
                                  (make_response (generate (Iterator output)))), n'))))))"

text \<open>
  The handler: the \<^verbatim>\<open>try\<close> block and the \<^verbatim>\<open>except\<close> clause (lines 36 to
  40). An exception that leaves the handler is the framework's error 500.
\<close>

definition apology :: "exn \<Rightarrow> string" where
  "apology e = ''I'' @ [CHR 0x27] @ ''m sorry, but something went wrong. ('' @ str_exn e @ '')''"

definition ask_team :: "services \<Rightarrow> nat \<Rightarrow> request \<Rightarrow> (exn + response) \<times> nat" where
  "ask_team sv n req =
     (case ask_team_try sv n req of
        (Inr response, n') \<Rightarrow> (Inr response, n')
      | (Inl (e, bound), n') \<Rightarrow>
         (let output = apology e;
              response = make_response (generate (Text output))
          in (case bound of
                None \<Rightarrow>
                  (Inl (UnboundLocalError
                     (''cannot access local variable '' @ [CHR 0x27] @ ''session_id'' @ [CHR 0x27]
                        @ '' where it is not associated with a value'')), n')
              | Some token \<Rightarrow> (Inr (set_header ''X-Session-ID'' token response), n'))))"

subsection \<open>The handler of /image\<close>

text \<open>\<^verbatim>\<open>base64.b64encode(bytes).decode('utf-8')\<close>, RFC 4648 with padding.\<close>

definition b64_alphabet :: string where
  "b64_alphabet = ''ABCDEFGHIJKLMNOPQRSTUVWXYZabcdefghijklmnopqrstuvwxyz0123456789+/''"

definition b64_digit :: "nat \<Rightarrow> char" where
  "b64_digit n = b64_alphabet ! (n mod 64)"

fun b64encode :: "string \<Rightarrow> string" where
  "b64encode [] = []"
| "b64encode [a] =
     (let x = (of_char a :: nat)
      in [b64_digit (x div 4), b64_digit (x mod 4 * 16), CHR ''='', CHR ''=''])"
| "b64encode [a, b] =
     (let x = (of_char a :: nat); y = (of_char b :: nat)
      in [b64_digit (x div 4), b64_digit (x mod 4 * 16 + y div 16),
          b64_digit (y mod 16 * 4), CHR ''=''])"
| "b64encode (a # b # c # rest) =
     (let x = (of_char a :: nat); y = (of_char b :: nat); z = (of_char c :: nat)
      in [b64_digit (x div 4), b64_digit (x mod 4 * 16 + y div 16),
          b64_digit (y mod 16 * 4 + z div 64), b64_digit (z mod 64)] @ b64encode rest)"

text \<open>
  \<^verbatim>\<open>IMAGE_PATH\<close> comes from \<^verbatim>\<open>helpers\<close>: it is a parameter. The handler has no
  \<^verbatim>\<open>try\<close>: an exception of \<^verbatim>\<open>open\<close> or \<^verbatim>\<open>os.remove\<close> leaves it.
\<close>

definition get_image :: "string \<Rightarrow> fs \<Rightarrow> (exn + response) \<times> fs" where
  "get_image IMAGE_PATH fs =
     (if os_path_exists fs IMAGE_PATH then
        (case open_read fs IMAGE_PATH of
           Inl e \<Rightarrow> (Inl e, fs)
         | Inr image_bytes \<Rightarrow>
            (let base64_image = b64encode image_bytes;
                 src = ''data:image/png;base64,'' @ base64_image
             in (case os_remove fs IMAGE_PATH of
                   Inl e \<Rightarrow> (Inl e, fs)
                 | Inr fs' \<Rightarrow> (Inr (Response src), fs'))))
      else (Inr (Response []), fs))"

section \<open>Properties of the batch script\<close>

subsection \<open>Auxiliary facts\<close>


lemma loop_body_returns: "\<exists>st'. loop_body run line st = Inr st'"
  by (simp add: loop_body_def split: sum.split prod.split)

lemma main_loop_returns: "\<exists>st'. main_loop run lines st = Inr st'"
proof (induction lines arbitrary: st)
  case Nil
  show ?case by simp
next
  case (Cons line lines)
  obtain st1 where "loop_body run line st = Inr st1"
    using loop_body_returns by blast
  with Cons.IH [of st1] show ?case by simp
qed

lemma main_loop_append:
  "main_loop run pre st = Inr st0 \<Longrightarrow> main_loop run (pre @ rest) st = main_loop run rest st0"
proof (induction pre arbitrary: st)
  case Nil
  then show ?case by simp
next
  case (Cons line pre)
  obtain st1 where b: "loop_body run line st = Inr st1"
    using loop_body_returns by blast
  with Cons.prems have "main_loop run pre st1 = Inr st0" by simp
  from Cons.IH [OF this] b show ?case by simp
qed

lemma loop_body_caught:
  "accepted line \<Longrightarrow> try_body run line st = Inl (e, st1) \<Longrightarrow>
   loop_body run line st =
     Inr (print (''Error processing '' @ line @ '': ('' @ str_exn e @ '')'') st1)"
  by (simp add: loop_body_def)

lemma try_body_read_fails:
  "open_read_text (files st) line = Inl e \<Longrightarrow>
   try_body run line st = Inl (e, print (''Processing '' @ line) st)"
  by (simp add: try_body_def print_def)

lemma try_body_run_fails:
  "open_read_text (files st) line = Inr contents \<Longrightarrow>
   run (team st) (make_prompt contents) = (Inl e, t') \<Longrightarrow>
   try_body run line st = Inl (e, (print (''Processing '' @ line) st)\<lparr>team := t'\<rparr>)"
  by (simp add: try_body_def print_def)

lemma try_body_write_fails:
  "open_read_text (files st) line = Inr contents \<Longrightarrow>
   run (team st) (make_prompt contents) = (Inr content, t') \<Longrightarrow>
   open_write (files st) (output_path_of line) content = Inl e \<Longrightarrow>
   try_body run line st = Inl (e, (print (''Processing '' @ line) st)\<lparr>team := t'\<rparr>)"
  by (simp add: try_body_def print_def)

lemma try_body_succeeds:
  "open_read_text (files st) line = Inr contents \<Longrightarrow>
   run (team st) (make_prompt contents) = (Inr content, t') \<Longrightarrow>
   open_write (files st) (output_path_of line) content = Inr fs' \<Longrightarrow>
   try_body run line st = Inr ((print (''Processing '' @ line) st)\<lparr>team := t', files := fs'\<rparr>)"
  by (simp add: try_body_def print_def)

lemma try_body_printed:
  "try_body run line st = Inl (e, st') \<or> try_body run line st = Inr st' \<Longrightarrow>
   printed st' = printed st @ [''Processing '' @ line]"
  by (auto simp: try_body_def print_def Let_def split: sum.splits prod.splits)

lemma loop_body_announces:
  assumes "loop_body run line st = Inr st'"
  shows "filter (\<lambda>s. startswith s ''Processing '') (printed st') =
     filter (\<lambda>s. startswith s ''Processing '') (printed st) @ (if accepted line then [''Processing '' @ line] else [])"
proof (cases "accepted line")
  case False
  with assms show ?thesis by (simp add: loop_body_def)
next
  case True
  show ?thesis
  proof (cases "try_body run line st")
    case (Inr s)
    with True assms have "s = st'" by (simp add: loop_body_def)
    with Inr try_body_printed [of run line st _ st'] True show ?thesis
      by (simp add: startswith_def)
  next
    case (Inl x)
    obtain e s where x: "x = (e, s)" by (cases x)
    with Inl True assms
    have "st' = print (''Error processing '' @ line @ '': ('' @ str_exn e @ '')'') s"
      by (simp add: loop_body_def)
    moreover from Inl x try_body_printed [of run line st e s]
    have "printed s = printed st @ [''Processing '' @ line]" by simp
    ultimately show ?thesis using True
      by (simp add: print_def startswith_def)
  qed
qed

lemma main_loop_announces:
  "main_loop run lines st = Inr st' \<Longrightarrow>
   filter (\<lambda>s. startswith s ''Processing '') (printed st') =
     filter (\<lambda>s. startswith s ''Processing '') (printed st) @ map (\<lambda>l. ''Processing '' @ l) (filter accepted lines)"
proof (induction lines arbitrary: st)
  case Nil
  then show ?case by simp
next
  case (Cons line lines)
  obtain st1 where b: "loop_body run line st = Inr st1"
    using loop_body_returns by blast
  with Cons.prems have "main_loop run lines st1 = Inr st'" by simp
  from Cons.IH [OF this] loop_body_announces [OF b] show ?case by simp
qed





lemma loop_body_writes_after_run:
  "loop_body run line st = Inr st' \<Longrightarrow> files st' \<noteq> files st \<Longrightarrow>
   \<exists>contents content t'. open_read_text (files st) line = Inr contents \<and>
      run (team st) (make_prompt contents) = (Inr content, t') \<and>
      files st' = (files st)(output_path_of line \<mapsto> File content)"
  by (auto simp: loop_body_def try_body_def print_def open_write_def Let_def
      split: if_splits sum.splits prod.splits option.splits node.splits)








lemma takeWhile_stops_before_end:
  "c \<in> set xs \<Longrightarrow> length (takeWhile (\<lambda>x. x \<noteq> c) xs) < length xs"
  by (induction xs) auto

lemma os_path_basename_takeWhile:
  "os_path_basename p = rev (takeWhile (\<lambda>x. x \<noteq> CHR ''/'') (rev p))"
proof (cases "CHR ''/'' \<in> set p")
  case False
  then have "os_path_basename p = p"
    by (simp add: os_path_basename_def rfind_def)
  moreover have "takeWhile (\<lambda>x. x \<noteq> CHR ''/'') (rev p) = rev p"
    using False by auto
  ultimately show ?thesis by (simp only: rev_rev_ident)
next
  case True
  let ?k = "length (takeWhile (\<lambda>x. x \<noteq> CHR ''/'') (rev p))"
  have "?k < length (rev p)"
    using True by (intro takeWhile_stops_before_end) simp
  then have k: "?k < length p" by simp
  then have "nat (rfind p CHR ''/'' + 1) = length p - ?k"
    using True by (simp add: rfind_def)
  then have "os_path_basename p = drop (length p - ?k) p"
    by (simp add: os_path_basename_def)
  also have "\<dots> = rev (take ?k (rev p))"
    by (simp add: rev_take)
  also have "take ?k (rev p) = takeWhile (\<lambda>x. x \<noteq> CHR ''/'') (rev p)"
    by (rule takeWhile_eq_take [symmetric])
  finally show ?thesis .
qed

lemma no_slash_in_basename: "CHR ''/'' \<notin> set (os_path_basename p)"
  by (auto simp: os_path_basename_takeWhile dest: set_takeWhileD)

lemma fst_splitext_subset: "set (fst (os_path_splitext p)) \<subseteq> set p"
  by (auto simp: os_path_splitext_def Let_def dest: in_set_takeD)

lemma output_path_of_eq:
  "output_path_of line = ''reports/'' @ fst (os_path_splitext (os_path_basename line)) @ ''.md''"
proof -
  let ?name = "fst (os_path_splitext (os_path_basename line))"
  have "CHR ''/'' \<notin> set ?name"
    using fst_splitext_subset [of "os_path_basename line"] no_slash_in_basename [of line]
    by blast
  then have "\<not> startswith (?name @ ''.md'') ''/''"
    by (cases ?name) (auto simp: startswith_def)
  then show ?thesis
    by (cases "os_path_splitext (os_path_basename line)")
       (simp add: output_path_of_def os_path_join_def endswith_def)
qed

lemma loop_body_succeeds:
  "accepted line \<Longrightarrow> open_read_text (files st) line = Inr contents \<Longrightarrow>
   run (team st) (make_prompt contents) = (Inr content, t') \<Longrightarrow>
   files st (output_path_of line) \<noteq> Some Dir \<Longrightarrow>
   loop_body run line st =
     Inr (st\<lparr>files := (files st)(output_path_of line \<mapsto> File content),
             printed := printed st @ [''Processing '' @ line], team := t'\<rparr>)"
  by (auto simp: loop_body_def try_body_def print_def open_write_def Let_def
      split: option.splits node.splits)



subsection \<open>Failures are isolated per artifact\<close>

text \<open>
  Claim C1. Whatever the changed lines, the files and the team do, no exception
  leaves the loop, so the script ends with exit status 0. When the \<^verbatim>\<open>try\<close>
  body of an accepted line raises \<open>e\<close>, the handler prints
  \<^verbatim>\<open>Error processing <line>: (<e>)\<close> and the loop goes on with the lines
  that remain, from the state the failed iteration left. So every accepted line
  is announced by its \<^verbatim>\<open>Processing\<close> line, in order, however many before it
  failed. The \<^verbatim>\<open>try\<close> body does raise in each of the three cases: when the
  file cannot be read (missing, a directory, or not UTF-8), when \<^verbatim>\<open>team.run\<close>
  raises, and when the report cannot be written.
\<close>

theorem batch_isolates_failures:
  "exit_status (main_loop run lines st) = 0 \<and>
   (main_loop run pre st = Inr st0 \<longrightarrow> accepted line \<longrightarrow>
    try_body run line st0 = Inl (e, st1) \<longrightarrow>
      main_loop run (pre @ line # rest) st =
        main_loop run rest
          (print (''Error processing '' @ line @ '': ('' @ str_exn e @ '')'') st1)) \<and>
   (main_loop run lines st = Inr st' \<longrightarrow>
      filter (\<lambda>s. startswith s ''Processing '') (printed st') =
        filter (\<lambda>s. startswith s ''Processing '') (printed st) @
        map (\<lambda>l. ''Processing '' @ l) (filter accepted lines)) \<and>
   (open_read_text (files st0) line = Inl e \<longrightarrow>
      try_body run line st0 = Inl (e, print (''Processing '' @ line) st0)) \<and>
   (open_read_text (files st0) line = Inr contents \<longrightarrow>
    run (team st0) (make_prompt contents) = (Inl e, t') \<longrightarrow>
      try_body run line st0 = Inl (e, (print (''Processing '' @ line) st0)\<lparr>team := t'\<rparr>)) \<and>
   (open_read_text (files st0) line = Inr contents \<longrightarrow>
    run (team st0) (make_prompt contents) = (Inr content, t') \<longrightarrow>
    open_write (files st0) (output_path_of line) content = Inl e \<longrightarrow>
      try_body run line st0 = Inl (e, (print (''Processing '' @ line) st0)\<lparr>team := t'\<rparr>))"
proof (intro conjI impI)
  obtain st' where "main_loop run lines st = Inr st'"
    using main_loop_returns by blast
  then show "exit_status (main_loop run lines st) = 0"
    by (simp add: exit_status_def)
next
  assume pre: "main_loop run pre st = Inr st0" and acc: "accepted line"
    and fails: "try_body run line st0 = Inl (e, st1)"
  have "main_loop run (pre @ line # rest) st = main_loop run (line # rest) st0"
    using pre by (rule main_loop_append)
  also have "\<dots> = main_loop run rest
      (print (''Error processing '' @ line @ '': ('' @ str_exn e @ '')'') st1)"
    using loop_body_caught [OF acc fails] by simp
  finally show "main_loop run (pre @ line # rest) st =
      main_loop run rest
        (print (''Error processing '' @ line @ '': ('' @ str_exn e @ '')'') st1)" .
next
  assume "main_loop run lines st = Inr st'"
  then show "filter (\<lambda>s. startswith s ''Processing '') (printed st') =
      filter (\<lambda>s. startswith s ''Processing '') (printed st) @
      map (\<lambda>l. ''Processing '' @ l) (filter accepted lines)"
    by (rule main_loop_announces)
next
  assume "open_read_text (files st0) line = Inl e"
  then show "try_body run line st0 = Inl (e, print (''Processing '' @ line) st0)"
    by (rule try_body_read_fails)
next
  assume "open_read_text (files st0) line = Inr contents"
    and "run (team st0) (make_prompt contents) = (Inl e, t')"
  then show "try_body run line st0 =
      Inl (e, (print (''Processing '' @ line) st0)\<lparr>team := t'\<rparr>)"
    by (rule try_body_run_fails)
next
  assume "open_read_text (files st0) line = Inr contents"
    and "run (team st0) (make_prompt contents) = (Inr content, t')"
    and "open_write (files st0) (output_path_of line) content = Inl e"
  then show "try_body run line st0 =
      Inl (e, (print (''Processing '' @ line) st0)\<lparr>team := t'\<rparr>)"
    by (rule try_body_write_fails)
qed

theorem batch_isolates_failures_witness:
  "accepted ''source/a.py'' \<and>
   main_loop (\<lambda>t p. (Inr (''# Report''), Suc t)) [''source/a.py'', ''source/b.js'']
       \<lparr>files = [''source/b.js'' \<mapsto> File ''let x''], printed = [], team = (0::nat)\<rparr> =
     Inr \<lparr>files = [''source/b.js'' \<mapsto> File ''let x'', ''reports/b.md'' \<mapsto> File ''# Report''],
          printed = [''Processing source/a.py'',
            ''Error processing source/a.py: ([Errno 2] No such file or directory: '' @ [CHR 0x27]
              @ ''source/a.py'' @ [CHR 0x27] @ '')'',
            ''Processing source/b.js''],
          team = 1\<rparr> \<and>
   filter (\<lambda>s. startswith s ''Processing '')
     (printed \<lparr>files = [''source/b.js'' \<mapsto> File ''let x'', ''reports/b.md'' \<mapsto> File ''# Report''],
          printed = [''Processing source/a.py'',
            ''Error processing source/a.py: ([Errno 2] No such file or directory: '' @ [CHR 0x27]
              @ ''source/a.py'' @ [CHR 0x27] @ '')'',
            ''Processing source/b.js''],
          team = (1::nat)\<rparr>) = [''Processing source/a.py'', ''Processing source/b.js''] \<and>
   exit_status (main_loop (\<lambda>t p. (Inr (''# Report''), Suc t)) [''source/a.py'', ''source/b.js'']
       \<lparr>files = [''source/b.js'' \<mapsto> File ''let x''], printed = [], team = (0::nat)\<rparr>) = 0 \<and>
   try_body (\<lambda>t p. (Inr (''# Report''), Suc t)) ''source/a.py''
       \<lparr>files = [''source/a.py'' \<mapsto> File [CHR 0xFF]], printed = [], team = (0::nat)\<rparr> =
     Inl (UnicodeDecodeError (CHR 0xFF) 0 1 ''invalid start byte'',
          \<lparr>files = [''source/a.py'' \<mapsto> File [CHR 0xFF]],
           printed = [''Processing source/a.py''], team = 0\<rparr>) \<and>
   try_body (\<lambda>t p. (Inl (BackendError ''quota''), Suc t)) ''source/b.js''
       \<lparr>files = [''source/b.js'' \<mapsto> File ''let x''], printed = [], team = (0::nat)\<rparr> =
     Inl (BackendError ''quota'',
          \<lparr>files = [''source/b.js'' \<mapsto> File ''let x''],
           printed = [''Processing source/b.js''], team = 1\<rparr>) \<and>
   try_body (\<lambda>t p. (Inr (''# Report''), Suc t)) ''source/b.js''
       \<lparr>files = [''source/b.js'' \<mapsto> File ''let x'', ''reports/b.md'' \<mapsto> Dir],
        printed = [], team = (0::nat)\<rparr> =
     Inl (IsADirectoryError ''reports/b.md'',
          \<lparr>files = [''source/b.js'' \<mapsto> File ''let x'', ''reports/b.md'' \<mapsto> Dir],
           printed = [''Processing source/b.js''], team = 1\<rparr>)"
proof -
  let ?run = "\<lambda>(t::nat) (p::string). (Inr (''# Report'') :: exn + string, Suc t)"
  let ?quota = "\<lambda>(t::nat) (p::string). (Inl (BackendError ''quota'') :: exn + string, Suc t)"
  let ?st = "\<lparr>files = [''source/b.js'' \<mapsto> File ''let x''], printed = [], team = (0::nat)\<rparr>"
  let ?st1 = "\<lparr>files = [''source/b.js'' \<mapsto> File ''let x''],
        printed = [''Processing source/a.py''], team = (0::nat)\<rparr>"
  let ?st' = "\<lparr>files = [''source/b.js'' \<mapsto> File ''let x'', ''reports/b.md'' \<mapsto> File ''# Report''],
          printed = [''Processing source/a.py'',
            ''Error processing source/a.py: ([Errno 2] No such file or directory: '' @ [CHR 0x27]
              @ ''source/a.py'' @ [CHR 0x27] @ '')'',
            ''Processing source/b.js''],
          team = (1::nat)\<rparr>"
  let ?bad = "\<lparr>files = [''source/a.py'' \<mapsto> File [CHR 0xFF]], printed = [], team = (0::nat)\<rparr>"
  let ?blocked = "\<lparr>files = [''source/b.js'' \<mapsto> File ''let x'', ''reports/b.md'' \<mapsto> Dir],
        printed = [], team = (0::nat)\<rparr>"
  have pre: "main_loop ?run [] ?st = Inr ?st" by simp
  have acc: "accepted ''source/a.py''"
    by (simp add: accepted_def startswith_def endswith_def)
  have accb: "accepted ''source/b.js''"
    by (simp add: accepted_def startswith_def endswith_def)
  have out: "output_path_of ''source/b.js'' = ''reports/b.md''"
    by (simp add: output_path_of_def os_path_basename_def os_path_splitext_def os_path_join_def
        rfind_def startswith_def endswith_def)
  note inst = batch_isolates_failures
    [where run = "?run" and lines = "[''source/a.py'', ''source/b.js'']" and st = "?st"
       and pre = "[]" and ?st0.0 = "?st" and line = "''source/a.py''"
       and e = "FileNotFoundError ''source/a.py''" and ?st1.0 = "?st1" and rest = "[''source/b.js'']"
       and st' = "?st'"]
  have missing: "open_read_text (files ?st) ''source/a.py'' = Inl (FileNotFoundError ''source/a.py'')"
    by (simp add: open_read_text_def)
  have "try_body ?run ''source/a.py'' ?st =
      Inl (FileNotFoundError ''source/a.py'', print (''Processing '' @ ''source/a.py'') ?st)"
    by (rule inst [THEN conjunct2, THEN conjunct2, THEN conjunct2, THEN conjunct1,
          rule_format, OF missing])
  then have fails: "try_body ?run ''source/a.py'' ?st = Inl (FileNotFoundError ''source/a.py'', ?st1)"
    by (simp add: print_def)
  have ex: "exit_status (main_loop ?run [''source/a.py'', ''source/b.js''] ?st) = 0"
    by (rule inst [THEN conjunct1])
  have "main_loop ?run ([] @ ''source/a.py'' # [''source/b.js'']) ?st =
      main_loop ?run [''source/b.js'']
        (print (''Error processing '' @ ''source/a.py'' @ '': ('' @
           str_exn (FileNotFoundError ''source/a.py'') @ '')'') ?st1)"
    by (rule inst [THEN conjunct2, THEN conjunct1, rule_format, OF pre acc fails])
  then have step: "main_loop ?run [''source/a.py'', ''source/b.js''] ?st =
      main_loop ?run [''source/b.js'']
        (print (''Error processing '' @ ''source/a.py'' @ '': ('' @
           str_exn (FileNotFoundError ''source/a.py'') @ '')'') ?st1)"
    by (simp only: append_Nil)
  have "main_loop ?run [''source/b.js'']
        (print (''Error processing '' @ ''source/a.py'' @ '': ('' @
           str_exn (FileNotFoundError ''source/a.py'') @ '')'') ?st1) = Inr ?st'"
    by (simp add: loop_body_def accb try_body_def print_def open_read_text_def open_write_def out
        py_repr_def repr_char_def Let_def)
  with step have whole: "main_loop ?run [''source/a.py'', ''source/b.js''] ?st = Inr ?st'"
    by (simp only:)
  from whole
  have "filter (\<lambda>s. startswith s ''Processing '') (printed ?st') =
      filter (\<lambda>s. startswith s ''Processing '') (printed ?st) @
      map (\<lambda>l. ''Processing '' @ l) (filter accepted [''source/a.py'', ''source/b.js''])"
    by (rule inst [THEN conjunct2, THEN conjunct2, THEN conjunct1, rule_format])
  then have announced: "filter (\<lambda>s. startswith s ''Processing '') (printed ?st') =
      [''Processing source/a.py'', ''Processing source/b.js'']"
    by (simp add: acc accb)
  have undecodable: "open_read_text (files ?bad) ''source/a.py'' =
      Inl (UnicodeDecodeError (CHR 0xFF) 0 1 ''invalid start byte'')"
    by (simp add: open_read_text_def)
  have "try_body ?run ''source/a.py'' ?bad =
      Inl (UnicodeDecodeError (CHR 0xFF) 0 1 ''invalid start byte'',
           print (''Processing '' @ ''source/a.py'') ?bad)"
    by (rule batch_isolates_failures
        [where run = "?run" and ?st0.0 = "?bad" and line = "''source/a.py''",
         THEN conjunct2, THEN conjunct2, THEN conjunct2, THEN conjunct1,
         rule_format, OF undecodable])
  then have decode: "try_body ?run ''source/a.py'' ?bad =
      Inl (UnicodeDecodeError (CHR 0xFF) 0 1 ''invalid start byte'',
           \<lparr>files = [''source/a.py'' \<mapsto> File [CHR 0xFF]],
            printed = [''Processing source/a.py''], team = 0\<rparr>)"
    by (simp add: print_def)
  have rd: "open_read_text (files ?st) ''source/b.js'' = Inr ''let x''"
    by (simp add: open_read_text_def)
  have refused: "?quota (team ?st) (make_prompt ''let x'') = (Inl (BackendError ''quota''), 1)"
    by simp
  have "try_body ?quota ''source/b.js'' ?st =
      Inl (BackendError ''quota'', (print (''Processing '' @ ''source/b.js'') ?st)\<lparr>team := 1\<rparr>)"
    by (rule batch_isolates_failures
        [where run = "?quota" and ?st0.0 = "?st" and line = "''source/b.js''",
         THEN conjunct2, THEN conjunct2, THEN conjunct2, THEN conjunct2, THEN conjunct1,
         rule_format, OF rd refused])
  then have runfail: "try_body ?quota ''source/b.js'' ?st =
      Inl (BackendError ''quota'',
           \<lparr>files = [''source/b.js'' \<mapsto> File ''let x''],
            printed = [''Processing source/b.js''], team = 1\<rparr>)"
    by (simp add: print_def)
  have rd': "open_read_text (files ?blocked) ''source/b.js'' = Inr ''let x''"
    by (simp add: open_read_text_def)
  have answered: "?run (team ?blocked) (make_prompt ''let x'') = (Inr ''# Report'', 1)"
    by simp
  have isdir: "open_write (files ?blocked) (output_path_of ''source/b.js'') ''# Report'' =
      Inl (IsADirectoryError ''reports/b.md'')"
    by (simp add: open_write_def out)
  have "try_body ?run ''source/b.js'' ?blocked =
      Inl (IsADirectoryError ''reports/b.md'',
           (print (''Processing '' @ ''source/b.js'') ?blocked)\<lparr>team := 1\<rparr>)"
    by (rule batch_isolates_failures
        [where run = "?run" and ?st0.0 = "?blocked" and line = "''source/b.js''",
         THEN conjunct2, THEN conjunct2, THEN conjunct2, THEN conjunct2, THEN conjunct2,
         rule_format, OF rd' answered isdir])
  then have writefail: "try_body ?run ''source/b.js'' ?blocked =
      Inl (IsADirectoryError ''reports/b.md'',
           \<lparr>files = [''source/b.js'' \<mapsto> File ''let x'', ''reports/b.md'' \<mapsto> Dir],
            printed = [''Processing source/b.js''], team = 1\<rparr>)"
    by (simp add: print_def)
  from acc whole announced ex decode runfail writefail show ?thesis
    by (intro conjI)
qed

subsection \<open>Which lines produce a report\<close>



subsection \<open>No report when the team fails\<close>

text \<open>
  Claim C4. When \<^verbatim>\<open>team.run\<close> raises for an accepted artifact that was read,
  the iteration ends normally, the files are what they were before it (line 119
  is not reached, so no report is created or truncated), and the only trace is
  the two printed lines. Conversely an iteration that changes the files has read
  the artifact and got an answer from the team, and the change is the report at
  the output path of the line.
\<close>

theorem no_report_when_aggregator_fails:
  "(accepted line \<longrightarrow> open_read_text (files st) line = Inr contents \<longrightarrow>
    run (team st) (make_prompt contents) = (Inl e, t') \<longrightarrow>
    (\<exists>st'. loop_body run line st = Inr st' \<and> files st' = files st \<and>
       printed st' = printed st @ [''Processing '' @ line,
          ''Error processing '' @ line @ '': ('' @ str_exn e @ '')''])) \<and>
   (loop_body run line st = Inr st1 \<longrightarrow> files st1 \<noteq> files st \<longrightarrow>
    (\<exists>contents content t'. open_read_text (files st) line = Inr contents \<and>
       run (team st) (make_prompt contents) = (Inr content, t') \<and>
       files st1 = (files st)(output_path_of line \<mapsto> File content)))"
  using loop_body_writes_after_run [of run line st st1]
  by (simp add: loop_body_def try_body_run_fails print_def)

theorem no_report_when_aggregator_fails_witness:
  "accepted ''source/a.py'' \<and>
   open_read_text (files \<lparr>files = [''source/a.py'' \<mapsto> File ''x = 1''], printed = [], team = ()\<rparr>)
     ''source/a.py'' = Inr ''x = 1'' \<and>
   (\<exists>st'. loop_body (\<lambda>t p. (Inl (BackendError ''quota''), t)) ''source/a.py''
       \<lparr>files = [''source/a.py'' \<mapsto> File ''x = 1''], printed = [], team = ()\<rparr> = Inr st' \<and>
     files st' = [''source/a.py'' \<mapsto> File ''x = 1''] \<and>
     printed st' = [''Processing source/a.py'', ''Error processing source/a.py: (quota)'']) \<and>
   loop_body (\<lambda>t p. (Inr ''# Report'', t)) ''source/a.py''
       \<lparr>files = [''source/a.py'' \<mapsto> File ''x = 1''], printed = [], team = ()\<rparr> =
     Inr \<lparr>files = [''source/a.py'' \<mapsto> File ''x = 1'', ''reports/a.md'' \<mapsto> File ''# Report''],
          printed = [''Processing source/a.py''], team = ()\<rparr> \<and>
   (\<exists>contents content t'.
      open_read_text [''source/a.py'' \<mapsto> File ''x = 1''] ''source/a.py'' = Inr contents \<and>
      (Inr ''# Report'' :: exn + string, ()) = (Inr content, t') \<and>
      [''source/a.py'' \<mapsto> File ''x = 1'', ''reports/a.md'' \<mapsto> File ''# Report''] =
        [''source/a.py'' \<mapsto> File ''x = 1''](output_path_of ''source/a.py'' \<mapsto> File content))"
proof -
  let ?st = "\<lparr>files = [''source/a.py'' \<mapsto> File ''x = 1''], printed = [], team = ()\<rparr>"
  let ?st1 = "\<lparr>files = [''source/a.py'' \<mapsto> File ''x = 1'', ''reports/a.md'' \<mapsto> File ''# Report''],
          printed = [''Processing source/a.py''], team = ()\<rparr>"
  let ?fail = "\<lambda>(t::unit) (p::string). (Inl (BackendError ''quota'') :: exn + string, t)"
  let ?ok = "\<lambda>(t::unit) (p::string). (Inr ''# Report'' :: exn + string, t)"
  have acc: "accepted ''source/a.py''"
    by (simp add: accepted_def startswith_def endswith_def)
  have rd: "open_read_text (files ?st) ''source/a.py'' = Inr ''x = 1''"
    by (simp add: open_read_text_def)
  have rn: "?fail (team ?st) (make_prompt ''x = 1'') = (Inl (BackendError ''quota''), ())"
    by simp
  have out: "output_path_of ''source/a.py'' = ''reports/a.md''"
    by (simp add: output_path_of_def os_path_basename_def os_path_splitext_def os_path_join_def
        rfind_def startswith_def endswith_def)
  have ok: "loop_body ?ok ''source/a.py'' ?st = Inr ?st1"
    by (simp add: loop_body_def acc try_body_def print_def open_read_text_def open_write_def out)
  have changed: "files ?st1 \<noteq> files ?st"
  proof
    assume "files ?st1 = files ?st"
    then have "files ?st1 ''reports/a.md'' = files ?st ''reports/a.md''" by (simp only:)
    then show False by simp
  qed
  have 1: "\<exists>st'. loop_body ?fail ''source/a.py'' ?st = Inr st' \<and> files st' = files ?st \<and>
       printed st' = printed ?st @ [''Processing '' @ ''source/a.py'',
          ''Error processing '' @ ''source/a.py'' @ '': ('' @ str_exn (BackendError ''quota'') @ '')'']"
    by (rule no_report_when_aggregator_fails
        [where run = "?fail" and st = "?st" and line = "''source/a.py''",
         THEN conjunct1, rule_format, OF acc rd rn])
  have 2: "\<exists>contents content t'. open_read_text (files ?st) ''source/a.py'' = Inr contents \<and>
       ?ok (team ?st) (make_prompt contents) = (Inr content, t') \<and>
       files ?st1 = (files ?st)(output_path_of ''source/a.py'' \<mapsto> File content)"
    by (rule no_report_when_aggregator_fails
        [where run = "?ok" and st = "?st" and line = "''source/a.py''" and ?st1.0 = "?st1",
         THEN conjunct2, rule_format, OF ok changed])
  from 1 2 acc rd ok show ?thesis by simp
qed

subsection \<open>Reports of artifacts with the same base name\<close>

text \<open>
  Claim C5. The report path is \<^verbatim>\<open>reports/<name>.md\<close>, where \<^verbatim>\<open><name>\<close> is the
  base name of the line without its extension, so two lines with the same base
  name have the same report path, whatever their directories. When the report of
  the earlier one is there and the later one is accepted, read and answered by the
  team, its iteration replaces the content of that path by the later report and
  prints nothing but its \<^verbatim>\<open>Processing\<close> line: no error, no warning.
\<close>

theorem same_base_name_overwrites:
  "os_path_basename l1 = os_path_basename l2 \<longrightarrow>
     output_path_of l1 = ''reports/'' @ fst (os_path_splitext (os_path_basename l1)) @ ''.md'' \<and>
     output_path_of l2 = output_path_of l1 \<and>
     (accepted l2 \<longrightarrow> files st (output_path_of l1) = Some (File r1) \<longrightarrow>
      open_read_text (files st) l2 = Inr c2 \<longrightarrow>
      run (team st) (make_prompt c2) = (Inr r2, t2) \<longrightarrow>
        loop_body run l2 st =
          Inr (st\<lparr>files := (files st)(output_path_of l1 \<mapsto> File r2),
                  printed := printed st @ [''Processing '' @ l2], team := t2\<rparr>))"
proof (intro impI conjI)
  show "output_path_of l1 = ''reports/'' @ fst (os_path_splitext (os_path_basename l1)) @ ''.md''"
    by (rule output_path_of_eq)
next
  assume "os_path_basename l1 = os_path_basename l2"
  then show same: "output_path_of l2 = output_path_of l1"
    by (simp add: output_path_of_def)
  assume acc: "accepted l2" and earlier: "files st (output_path_of l1) = Some (File r1)"
    and rd: "open_read_text (files st) l2 = Inr c2"
    and rn: "run (team st) (make_prompt c2) = (Inr r2, t2)"
  from earlier same have "files st (output_path_of l2) \<noteq> Some Dir" by simp
  with acc rd rn have "loop_body run l2 st =
      Inr (st\<lparr>files := (files st)(output_path_of l2 \<mapsto> File r2),
              printed := printed st @ [''Processing '' @ l2], team := t2\<rparr>)"
    by (rule loop_body_succeeds)
  with same show "loop_body run l2 st =
      Inr (st\<lparr>files := (files st)(output_path_of l1 \<mapsto> File r2),
              printed := printed st @ [''Processing '' @ l2], team := t2\<rparr>)"
    by simp
qed

theorem same_base_name_overwrites_witness:
  "os_path_basename ''source/a/util.py'' = os_path_basename ''source/b/util.py'' \<and>
   output_path_of ''source/a/util.py'' = ''reports/util.md'' \<and>
   output_path_of ''source/b/util.py'' = ''reports/util.md'' \<and>
   accepted ''source/b/util.py'' \<and>
   loop_body (\<lambda>t p. (Inr (''report '' @ t), ''B'')) ''source/b/util.py''
     \<lparr>files = [''source/b/util.py'' \<mapsto> File ''y = 2'', ''reports/util.md'' \<mapsto> File ''report A''],
      printed = [''Processing source/a/util.py''], team = ''B''\<rparr> =
   Inr \<lparr>files = [''source/b/util.py'' \<mapsto> File ''y = 2'', ''reports/util.md'' \<mapsto> File ''report B''],
        printed = [''Processing source/a/util.py'', ''Processing source/b/util.py''],
        team = ''B''\<rparr>"
proof -
  let ?run = "\<lambda>(t::string) (p::string). (Inr (''report '' @ t) :: exn + string, ''B'')"
  let ?st = "\<lparr>files = [''source/b/util.py'' \<mapsto> File ''y = 2'', ''reports/util.md'' \<mapsto> File ''report A''],
      printed = [''Processing source/a/util.py''], team = ''B''\<rparr>"
  have base: "os_path_basename ''source/a/util.py'' = os_path_basename ''source/b/util.py''"
    by (simp add: os_path_basename_def rfind_def)
  have out: "''reports/'' @ fst (os_path_splitext (os_path_basename ''source/a/util.py'')) @ ''.md''
      = ''reports/util.md''"
    by (simp add: os_path_basename_def os_path_splitext_def rfind_def)
  have acc: "accepted ''source/b/util.py''"
    by (simp add: accepted_def startswith_def endswith_def)
  note inst = same_base_name_overwrites
    [where ?l1.0 = "''source/a/util.py''" and ?l2.0 = "''source/b/util.py''" and st = "?st"
       and ?r1.0 = "''report A''" and ?c2.0 = "''y = 2''" and run = "?run"
       and ?r2.0 = "''report B''" and ?t2.0 = "''B''"]
  from inst base out have p1: "output_path_of ''source/a/util.py'' = ''reports/util.md''"
    and p2: "output_path_of ''source/b/util.py'' = ''reports/util.md''"
    by simp_all
  have rd: "open_read_text (files ?st) ''source/b/util.py'' = Inr ''y = 2''"
    by (simp add: open_read_text_def)
  from inst base acc rd p1 have "loop_body ?run ''source/b/util.py'' ?st =
      Inr (?st\<lparr>files := (files ?st)(''reports/util.md'' \<mapsto> File ''report B''),
              printed := printed ?st @ [''Processing '' @ ''source/b/util.py''], team := ''B''\<rparr>)"
    by simp
  with base p1 p2 acc show ?thesis by simp
qed

section \<open>Properties of the web service\<close>

subsection \<open>Auxiliary facts\<close>

lemma generate_Text_nonempty:
  "s \<noteq> [] \<Longrightarrow>
   generate (Text s) =
     ([], Some (AttributeError ([CHR 0x27] @ ''str'' @ [CHR 0x27] @ '' object has no attribute ''
            @ [CHR 0x27] @ ''content'' @ [CHR 0x27])))"
  by (cases s) (simp_all add: generate_def)

lemma apology_nonempty: "apology e \<noteq> []"
  by (simp add: apology_def)

lemma ask_team_except:
  "ask_team_try sv n req = (Inl (e, Some token), n') \<Longrightarrow>
   ask_team sv n req =
     (Inr \<lparr>status = 200, headers = [(''X-Session-ID'', token)],
           body = Streamed (generate (Text (apology e)))\<rparr>, n')"
  by (simp add: ask_team_def make_response_def set_header_def)

lemma ask_team_unbound:
  "ask_team_try sv n req = (Inl (e, None), n') \<Longrightarrow> \<exists>m. ask_team sv n req = (Inl (UnboundLocalError m), n')"
  by (simp add: ask_team_def)

lemma ask_team_try_token:
  "ask_team_try sv n req = (r, n') \<Longrightarrow> headers_get req ''X-Session-ID'' = Inr h \<Longrightarrow>
   (let token = (case h of None \<Rightarrow> uuid4 sv n | Some v \<Rightarrow> if v = [] then uuid4 sv n else v)
    in n' = (case h of None \<Rightarrow> Suc n | Some v \<Rightarrow> if v = [] then Suc n else n) \<and>
       (case r of Inl (e, bound) \<Rightarrow> bound = Some token
        | Inr resp \<Rightarrow> headers resp = [(''X-Session-ID'', token)]))"
  by (auto simp: ask_team_try_def Let_def make_response_def set_header_def
      split: option.splits sum.splits if_splits)

lemma ask_team_token:
  assumes "ask_team sv n req = (Inr resp, n')" and "headers_get req ''X-Session-ID'' = Inr h"
  shows "headers resp =
      [(''X-Session-ID'', (case h of None \<Rightarrow> uuid4 sv n | Some v \<Rightarrow> if v = [] then uuid4 sv n else v))]
    \<and> n' = (case h of None \<Rightarrow> Suc n | Some v \<Rightarrow> if v = [] then Suc n else n)"
proof -
  obtain r m where t: "ask_team_try sv n req = (r, m)" by (cases "ask_team_try sv n req")
  from ask_team_try_token [OF t assms(2)] assms(1) t show ?thesis
    by (auto simp: ask_team_def Let_def make_response_def set_header_def
        split: sum.splits option.splits prod.splits)
qed

subsection \<open>The session header\<close>

text \<open>
  Claim C6. Whenever the handler of \<^verbatim>\<open>/team\<close> returns a response, its header
  \<^verbatim>\<open>X-Session-ID\<close> is the effective token: the value of the request header
  when that is present and not empty (and then no token is drawn), and otherwise
  the token drawn for this request. When the generator of tokens never repeats a
  value, two successive requests without the header get two different tokens.
\<close>

theorem session_header_is_effective_token:
  "(ask_team sv n req = (Inr resp, n') \<longrightarrow>
      headers_get req ''X-Session-ID'' = Inr (Some v) \<longrightarrow> v \<noteq> [] \<longrightarrow>
      headers resp = [(''X-Session-ID'', v)] \<and> n' = n) \<and>
   (ask_team sv n req = (Inr resp, n') \<longrightarrow>
      headers_get req ''X-Session-ID'' = Inr None \<or>
      headers_get req ''X-Session-ID'' = Inr (Some []) \<longrightarrow>
      headers resp = [(''X-Session-ID'', uuid4 sv n)] \<and> n' = Suc n) \<and>
   (inj (uuid4 sv) \<longrightarrow>
      headers_get req1 ''X-Session-ID'' = Inr None \<longrightarrow>
      headers_get req2 ''X-Session-ID'' = Inr None \<longrightarrow>
      ask_team sv n req1 = (Inr resp1, n1) \<longrightarrow>
      ask_team sv n1 req2 = (Inr resp2, n2) \<longrightarrow>
      (\<exists>t1 t2. headers resp1 = [(''X-Session-ID'', t1)] \<and>
         headers resp2 = [(''X-Session-ID'', t2)] \<and> t1 \<noteq> t2))"
proof (intro conjI impI)
  assume "ask_team sv n req = (Inr resp, n')" "headers_get req ''X-Session-ID'' = Inr (Some v)"
    "v \<noteq> []"
  from ask_team_token [OF this(1,2)] this(3)
  show "headers resp = [(''X-Session-ID'', v)]" and "n' = n" by simp_all
next
  assume a: "ask_team sv n req = (Inr resp, n')"
    and h: "headers_get req ''X-Session-ID'' = Inr None \<or> headers_get req ''X-Session-ID'' = Inr (Some [])"
  from h show "headers resp = [(''X-Session-ID'', uuid4 sv n)]"
    using ask_team_token [OF a] by auto
  from h show "n' = Suc n"
    using ask_team_token [OF a] by auto
next
  assume i: "inj (uuid4 sv)"
    and h1: "headers_get req1 ''X-Session-ID'' = Inr None"
    and h2: "headers_get req2 ''X-Session-ID'' = Inr None"
    and a1: "ask_team sv n req1 = (Inr resp1, n1)"
    and a2: "ask_team sv n1 req2 = (Inr resp2, n2)"
  from ask_team_token [OF a1 h1] have 1: "headers resp1 = [(''X-Session-ID'', uuid4 sv n)]"
    and n1: "n1 = Suc n" by simp_all
  from ask_team_token [OF a2 h2] n1 have 2: "headers resp2 = [(''X-Session-ID'', uuid4 sv (Suc n))]"
    by simp
  from i have "uuid4 sv n \<noteq> uuid4 sv (Suc n)"
    by (auto dest: injD)
  with 1 2 show "\<exists>t1 t2. headers resp1 = [(''X-Session-ID'', t1)] \<and>
         headers resp2 = [(''X-Session-ID'', t2)] \<and> t1 \<noteq> t2"
    by simp
qed

theorem session_header_is_effective_token_witness:
  "ask_team \<lparr>uuid4 = (\<lambda>n. replicate (Suc n) CHR ''u''), create_team = Inr \<lparr>session_id = None\<rparr>,
             team_run = (\<lambda>t i. Inr [RunEvent ''Hello''])\<rparr> 0
      \<lparr>headers_get = (\<lambda>k. Inr (Some ''abc'')), args_get = (\<lambda>k. Some ''hi'')\<rparr> =
     (Inr \<lparr>status = 200, headers = [(''X-Session-ID'', ''abc'')],
           body = Streamed ([''Hello''], None)\<rparr>, 0) \<and>
   ask_team \<lparr>uuid4 = (\<lambda>n. replicate (Suc n) CHR ''u''), create_team = Inr \<lparr>session_id = None\<rparr>,
             team_run = (\<lambda>t i. Inr [RunEvent ''Hello''])\<rparr> 0
      \<lparr>headers_get = (\<lambda>k. Inr None), args_get = (\<lambda>k. Some ''hi'')\<rparr> =
     (Inr \<lparr>status = 200, headers = [(''X-Session-ID'', ''u'')],
           body = Streamed ([''Hello''], None)\<rparr>, 1) \<and>
   ask_team \<lparr>uuid4 = (\<lambda>n. replicate (Suc n) CHR ''u''), create_team = Inr \<lparr>session_id = None\<rparr>,
             team_run = (\<lambda>t i. Inr [RunEvent ''Hello''])\<rparr> 1
      \<lparr>headers_get = (\<lambda>k. Inr None), args_get = (\<lambda>k. Some ''hi'')\<rparr> =
     (Inr \<lparr>status = 200, headers = [(''X-Session-ID'', ''uu'')],
           body = Streamed ([''Hello''], None)\<rparr>, 2) \<and>
   ask_team \<lparr>uuid4 = (\<lambda>n. replicate (Suc n) CHR ''u''), create_team = Inr \<lparr>session_id = None\<rparr>,
             team_run = (\<lambda>t i. Inr [RunEvent ''Hello''])\<rparr> 0
      \<lparr>headers_get = (\<lambda>k. Inr (Some [])), args_get = (\<lambda>k. Some ''hi'')\<rparr> =
     (Inr \<lparr>status = 200, headers = [(''X-Session-ID'', ''u'')],
           body = Streamed ([''Hello''], None)\<rparr>, 1) \<and>
   inj (\<lambda>n. replicate (Suc n) CHR ''u'') \<and>
   (\<exists>t1 t2. [(''X-Session-ID'', ''u'')] = [(''X-Session-ID'', t1)] \<and>
      [(''X-Session-ID'', ''uu'')] = [(''X-Session-ID'', t2)] \<and> t1 \<noteq> t2)"
proof -
  let ?sv = "\<lparr>uuid4 = (\<lambda>n. replicate (Suc n) CHR ''u''), create_team = Inr \<lparr>session_id = None\<rparr>,
             team_run = (\<lambda>t i. Inr [RunEvent ''Hello''])\<rparr>"
  let ?with = "\<lparr>headers_get = (\<lambda>k. Inr (Some ''abc'')), args_get = (\<lambda>k. Some ''hi'')\<rparr>"
  let ?without = "\<lparr>headers_get = (\<lambda>k. Inr None :: exn + string option),
      args_get = (\<lambda>k. Some ''hi'')\<rparr>"
  let ?respA = "\<lparr>status = 200, headers = [(''X-Session-ID'', ''abc'')],
           body = Streamed ([''Hello''], None)\<rparr>"
  let ?resp1 = "\<lparr>status = 200, headers = [(''X-Session-ID'', ''u'')],
           body = Streamed ([''Hello''], None)\<rparr>"
  let ?resp2 = "\<lparr>status = 200, headers = [(''X-Session-ID'', ''uu'')],
           body = Streamed ([''Hello''], None)\<rparr>"
  have a: "ask_team ?sv 0 ?with = (Inr ?respA, 0)"
    by (simp add: ask_team_def ask_team_try_def make_response_def set_header_def generate_def)
  have b: "ask_team ?sv 0 ?without = (Inr ?resp1, 1)"
    by (simp add: ask_team_def ask_team_try_def make_response_def set_header_def generate_def)
  have c: "ask_team ?sv 1 ?without = (Inr ?resp2, 2)"
    by (simp add: ask_team_def ask_team_try_def make_response_def set_header_def generate_def)
  let ?empty = "\<lparr>headers_get = (\<lambda>k. Inr (Some []) :: exn + string option),
      args_get = (\<lambda>k. Some ''hi'')\<rparr>"
  have d: "ask_team ?sv 0 ?empty = (Inr ?resp1, 1)"
    by (simp add: ask_team_def ask_team_try_def make_response_def set_header_def generate_def)
  have hE: "headers_get ?empty ''X-Session-ID'' = Inr None \<or>
      headers_get ?empty ''X-Session-ID'' = Inr (Some [])"
    by simp
  have minted: "headers ?resp1 = [(''X-Session-ID'', uuid4 ?sv 0)] \<and> (1::nat) = Suc 0"
    by (rule session_header_is_effective_token
        [where sv = "?sv" and n = 0 and req = "?empty" and resp = "?resp1" and n' = 1,
         THEN conjunct2, THEN conjunct1, rule_format, OF d hE])
  have i: "inj (uuid4 ?sv)"
    by (rule injI) simp
  have h: "headers_get ?without ''X-Session-ID'' = Inr None" by simp
  have hA: "headers_get ?with ''X-Session-ID'' = Inr (Some ''abc'')" by simp
  have ne: "''abc'' \<noteq> []" by simp
  have supplied: "headers ?respA = [(''X-Session-ID'', ''abc'')] \<and> (0::nat) = 0"
    by (rule session_header_is_effective_token
        [where sv = "?sv" and n = 0 and req = "?with" and resp = "?respA" and n' = 0
           and v = "''abc''", THEN conjunct1, rule_format, OF a hA ne])
  have "\<exists>t1 t2. headers ?resp1 = [(''X-Session-ID'', t1)] \<and>
      headers ?resp2 = [(''X-Session-ID'', t2)] \<and> t1 \<noteq> t2"
    by (rule session_header_is_effective_token
        [where sv = "?sv" and n = 0 and ?req1.0 = "?without" and ?req2.0 = "?without"
           and ?resp1.0 = "?resp1" and ?n1.0 = 1 and ?resp2.0 = "?resp2" and ?n2.0 = 2,
         THEN conjunct2, THEN conjunct2, rule_format, OF i h h b c])
  then have distinct: "\<exists>t1 t2. [(''X-Session-ID'', ''u'')] = [(''X-Session-ID'', t1)] \<and>
      [(''X-Session-ID'', ''uu'')] = [(''X-Session-ID'', t2)] \<and> t1 \<noteq> t2"
    by (simp only: response.simps)
  from i have i': "inj (\<lambda>n. replicate (Suc n) CHR ''u'')"
    by (simp only: services.simps)
  from a b c d i' distinct show ?thesis
    by (intro conjI)
qed

subsection \<open>The response of the except clause\<close>

text \<open>
  Claim C10. When the \<^verbatim>\<open>try\<close> block raises \<open>e\<close> with \<^verbatim>\<open>session_id\<close> bound,
  the handler returns a response with status 200 and the session header, whose
  body is \<^verbatim>\<open>generate\<close> applied to the apology, a \<^verbatim>\<open>str\<close>. Its iteration
  yields one-character strings; the apology is never empty, so the first access
  to \<^verbatim>\<open>.content\<close> raises \<^verbatim>\<open>AttributeError\<close>: the consumer receives no text
  and that exception.
\<close>

theorem degraded_body_raises_AttributeError:
  "ask_team_try sv n req = (Inl (e, Some token), n') \<Longrightarrow>
   ask_team sv n req =
     (Inr \<lparr>status = 200, headers = [(''X-Session-ID'', token)],
           body = Streamed (generate (Text (apology e)))\<rparr>, n') \<and>
   iter (Text (apology e)) = map (\<lambda>c. PyStr [c]) (apology e) \<and>
   apology e \<noteq> [] \<and>
   generate (Text (apology e)) =
     ([], Some (AttributeError ([CHR 0x27] @ ''str'' @ [CHR 0x27] @ '' object has no attribute ''
            @ [CHR 0x27] @ ''content'' @ [CHR 0x27])))"
  using ask_team_except [of sv n req e token n'] generate_Text_nonempty [OF apology_nonempty, of e]
    apology_nonempty [of e]
  by simp

theorem degraded_body_raises_AttributeError_witness:
  "ask_team_try \<lparr>uuid4 = (\<lambda>n. replicate (Suc n) CHR ''u''), create_team = Inr \<lparr>session_id = None\<rparr>,
                 team_run = (\<lambda>t i. Inl (BackendError ''boom''))\<rparr> 0
      \<lparr>headers_get = (\<lambda>k. Inr (Some ''abc'')), args_get = (\<lambda>k. Some ''hi'')\<rparr> =
     (Inl (BackendError ''boom'', Some ''abc''), 0) \<and>
   ask_team \<lparr>uuid4 = (\<lambda>n. replicate (Suc n) CHR ''u''), create_team = Inr \<lparr>session_id = None\<rparr>,
             team_run = (\<lambda>t i. Inl (BackendError ''boom''))\<rparr> 0
      \<lparr>headers_get = (\<lambda>k. Inr (Some ''abc'')), args_get = (\<lambda>k. Some ''hi'')\<rparr> =
     (Inr \<lparr>status = 200, headers = [(''X-Session-ID'', ''abc'')],
           body = Streamed ([], Some (AttributeError ([CHR 0x27] @ ''str'' @ [CHR 0x27] @
             '' object has no attribute '' @ [CHR 0x27] @ ''content'' @ [CHR 0x27])))\<rparr>, 0)"
proof -
  let ?sv = "\<lparr>uuid4 = (\<lambda>n. replicate (Suc n) CHR ''u''), create_team = Inr \<lparr>session_id = None\<rparr>,
             team_run = (\<lambda>t i. Inl (BackendError ''boom'') :: exn + pyobj list)\<rparr>"
  let ?req = "\<lparr>headers_get = (\<lambda>k. Inr (Some ''abc'')), args_get = (\<lambda>k. Some ''hi'')\<rparr>"
  have raised: "ask_team_try ?sv 0 ?req = (Inl (BackendError ''boom'', Some ''abc''), 0)"
    by (simp add: ask_team_try_def)
  from degraded_body_raises_AttributeError [OF raised] raised show ?thesis
    by simp
qed

subsection \<open>A failure of the orchestration\<close>

text \<open>
  Claim C7, at one request: no session header, and \<^verbatim>\<open>create_team\<close> raises. The
  handler returns a response with status 200 and the minted token in the session
  header, but what its body delivers is not the apology: the consumer receives no
  text at all and an \<^verbatim>\<open>AttributeError\<close>.
\<close>

theorem ask_team_failure_delivers_no_apology:
  "ask_team \<lparr>uuid4 = (\<lambda>n. replicate (Suc n) CHR ''u''),
             create_team = Inl (RuntimeError ''no API key''),
             team_run = (\<lambda>t i. Inr [RunEvent ''Hello''])\<rparr> 0
      \<lparr>headers_get = (\<lambda>k. Inr None), args_get = (\<lambda>k. Some ''hi'')\<rparr> =
     (Inr \<lparr>status = 200, headers = [(''X-Session-ID'', ''u'')],
           body = Streamed ([], Some (AttributeError ([CHR 0x27] @ ''str'' @ [CHR 0x27] @
             '' object has no attribute '' @ [CHR 0x27] @ ''content'' @ [CHR 0x27])))\<rparr>, 1)"
  by (simp add: ask_team_def ask_team_try_def make_response_def set_header_def generate_def
      apology_def)

subsection \<open>The image is served once\<close>

text \<open>
  Claim C8. When \<^verbatim>\<open>IMAGE_PATH\<close> is a file, the handler of \<^verbatim>\<open>/image\<close> answers
  with status 200 and the body \<^verbatim>\<open>data:image/png;base64,\<close> followed by the
  base64 encoding of the bytes of the file, and removes the file; the same request
  made again at once gets status 200 and the empty body.
\<close>

theorem image_is_served_once:
  "fs IMAGE_PATH = Some (File image_bytes) \<Longrightarrow>
   get_image IMAGE_PATH fs =
     (Inr \<lparr>status = 200, headers = [],
           body = Static (''data:image/png;base64,'' @ b64encode image_bytes)\<rparr>,
      fs(IMAGE_PATH := None)) \<and>
   get_image IMAGE_PATH (fs(IMAGE_PATH := None)) =
     (Inr \<lparr>status = 200, headers = [], body = Static []\<rparr>, fs(IMAGE_PATH := None))"
  by (simp add: get_image_def os_path_exists_def open_read_def os_remove_def Response_def)

theorem image_is_served_once_witness:
  "[''static/image.png'' \<mapsto> File ''ABC''] ''static/image.png'' = Some (File ''ABC'') \<and>
   get_image ''static/image.png'' [''static/image.png'' \<mapsto> File ''ABC''] =
     (Inr \<lparr>status = 200, headers = [], body = Static ''data:image/png;base64,QUJD''\<rparr>,
      Map.empty) \<and>
   get_image ''static/image.png'' Map.empty =
     (Inr \<lparr>status = 200, headers = [], body = Static []\<rparr>, Map.empty)"
proof -
  have there: "[''static/image.png'' \<mapsto> File ''ABC''] ''static/image.png'' = Some (File ''ABC'')"
    by simp
  have enc: "b64encode ''ABC'' = ''QUJD''"
    by (simp add: b64_digit_def b64_alphabet_def)
  from image_is_served_once
    [where fs = "[''static/image.png'' \<mapsto> File ''ABC'']" and IMAGE_PATH = "''static/image.png''",
     OF there] enc there
  show ?thesis by simp
qed

subsection \<open>No image, no effect\<close>

text \<open>
  Claim C9. When nothing is at \<^verbatim>\<open>IMAGE_PATH\<close>, the handler of \<^verbatim>\<open>/image\<close>
  answers with status 200 and the empty body, and the file system after the
  request is the file system before it.
\<close>

theorem no_image_no_mutation:
  "fs IMAGE_PATH = None \<Longrightarrow>
   get_image IMAGE_PATH fs = (Inr \<lparr>status = 200, headers = [], body = Static []\<rparr>, fs)"
  by (simp add: get_image_def os_path_exists_def Response_def)

theorem no_image_no_mutation_witness:
  "[''notes.txt'' \<mapsto> File ''x''] ''static/image.png'' = None \<and>
   get_image ''static/image.png'' [''notes.txt'' \<mapsto> File ''x''] =
     (Inr \<lparr>status = 200, headers = [], body = Static []\<rparr>, [''notes.txt'' \<mapsto> File ''x''])"
proof -
  have absent: "[''notes.txt'' \<mapsto> File ''x''] ''static/image.png'' = None"
    by simp
  from no_image_no_mutation
    [where fs = "[''notes.txt'' \<mapsto> File ''x'']" and IMAGE_PATH = "''static/image.png''",
     OF absent] absent
  show ?thesis by simp
qed

end
